theory Spec2Isabelle
  imports Complex_Main "HOL-Library.Sublist"
begin

section \<open>CNNDetectionInterface (src/components/cnn-detection-interface.tsx)\<close>

text \<open>
  The component is a React function component. Its \<open>useState\<close> cells are the fields of
  \<open>CNNState\<close>; every handler becomes a function from state to state. An \<open>async\<close> handler
  is cut at its \<open>await\<close>s: the part before the first \<open>await\<close> runs when the handler is
  called, the rest runs when the awaited promise settles, as a separate event. The
  handler \<open>startAnalysis\<close> is a closure of the render that created it, so the values of
  \<open>isOnline\<close> and \<open>diseaseType\<close> it uses after an \<open>await\<close> are the ones of the render
  in which the button was clicked; the outstanding run keeps them in \<open>Run\<close>.
\<close>

datatype DiseaseType = Glaucoma | Retinopathy | Cataract

record PredictionResult =
  className :: string
  confidence :: real
  predictions :: "real list"
  processingTime :: real

text \<open>The object literal handed to \<open>saveDetectionResult\<close> (lines 165-173).\<close>

record DetectionRecord =
  id_rec :: string
  imageId :: string
  result :: PredictionResult
  timestamp :: string
  synced :: bool
  diseaseType :: DiseaseType
  confidence_rec :: real

text \<open>
  What the save reads from its environment: the two \<open>Date.now()\<close> calls, the string
  \<open>Math.random().toString(36)\<close> and \<open>new Date().toISOString()\<close>.
\<close>

record SaveEnv =
  nowId :: nat
  randomBase36 :: string
  nowImage :: nat
  isoNow :: string

datatype AwaitPoint = AwaitPredict | AwaitSave

record Run =
  capturedIsOnline :: bool
  capturedDiseaseType :: DiseaseType
  progressInterval :: nat
  awaiting :: AwaitPoint

record CNNState =
  diseaseTypeProp :: DiseaseType
  hasModel :: bool
  hasPreprocessor :: bool
  isModelReady :: bool
  isAnalyzing :: bool
  analysisProgress :: nat
  hasUploadedImage :: bool
  predictionResult :: "PredictionResult option"
  isOnline :: bool
  intervals :: "nat list"
  nextHandle :: nat
  pendingRun :: "Run option"
  saveCalls :: "DetectionRecord list"
  onResultCalls :: "PredictionResult list"

text \<open>
  \<open>hasModel\<close>, \<open>hasPreprocessor\<close> and \<open>hasUploadedImage\<close> say that the cell is not
  \<open>null\<close>; the cells \<open>modelInfo\<close> and \<open>gpuAvailable\<close>, which no handler reads, are left
  out. \<open>intervals\<close> are the handles of the \<open>setInterval\<close> timers that have not been
  cleared. \<open>saveCalls\<close> and \<open>onResultCalls\<close> log the arguments of the calls to
  \<open>saveDetectionResult\<close> and \<open>onResult\<close>, oldest first: the facade itself
  (\<open>@/lib/offline-storage\<close>) is not part of the sources.
\<close>

definition initialState :: "DiseaseType \<Rightarrow> CNNState" where
  "initialState d =
     \<lparr>diseaseTypeProp = d, hasModel = False, hasPreprocessor = False, isModelReady = False,
      isAnalyzing = False, analysisProgress = 0, hasUploadedImage = False,
      predictionResult = None, isOnline = True, intervals = [], nextHandle = 0,
      pendingRun = None, saveCalls = [], onResultCalls = []\<rparr>"

subsection \<open>Connectivity handlers (lines 62-76, 118-120)\<close>

definition handleOnline :: "CNNState \<Rightarrow> CNNState" where
  "handleOnline s = s\<lparr>isOnline := True\<rparr>"

definition handleOffline :: "CNNState \<Rightarrow> CNNState" where
  "handleOffline s = s\<lparr>isOnline := False\<rparr>"

text \<open>\<open>checkOnlineStatus\<close> copies \<open>navigator.onLine\<close>, its argument here.\<close>

definition checkOnlineStatus :: "bool \<Rightarrow> CNNState \<Rightarrow> CNNState" where
  "checkOnlineStatus navigatorOnLine s = s\<lparr>isOnline := navigatorOnLine\<rparr>"

subsection \<open>startAnalysis (lines 138-182)\<close>

text \<open>Decimal digits of a number, as a template string prints \<open>Date.now()\<close>.\<close>

function decimal :: "nat \<Rightarrow> string" where
  "decimal n =
     (if n < 10 then [char_of (48 + n)]
      else decimal (n div 10) @ [char_of (48 + n mod 10)])"
  by pat_completeness auto
termination
  by (relation "measure (\<lambda>n. n)") auto

declare decimal.simps [simp del]

text \<open>\<open>str.substr(start, len)\<close> for a start inside the string.\<close>

definition substr :: "string \<Rightarrow> nat \<Rightarrow> nat \<Rightarrow> string" where
  "substr str start len = take len (drop start str)"

definition detectionRecord :: "Run \<Rightarrow> PredictionResult \<Rightarrow> SaveEnv \<Rightarrow> DetectionRecord" where
  "detectionRecord run r env =
     \<lparr>id_rec = ''detection_'' @ decimal (nowId env) @ ''_'' @ substr (randomBase36 env) 2 9,
      imageId = ''image_'' @ decimal (nowImage env),
      result = r,
      timestamp = isoNow env,
      synced = capturedIsOnline run,
      diseaseType = capturedDiseaseType run,
      confidence_rec = confidence r\<rparr>"

text \<open>
  The updater of the progress timer with handle \<open>h\<close> (lines 146-154). A cleared timer
  does not fire.
\<close>

definition intervalTick :: "nat \<Rightarrow> CNNState \<Rightarrow> CNNState" where
  "intervalTick h s =
     (if h \<in> set (intervals s) then
        (if analysisProgress s \<ge> 90
         then s\<lparr>intervals := removeAll h (intervals s), analysisProgress := 90\<rparr>
         else s\<lparr>analysisProgress := analysisProgress s + 10\<rparr>)
      else s)"

text \<open>\<open>startAnalysis\<close> up to \<open>await model.predict(...)\<close>.\<close>

definition startAnalysis :: "CNNState \<Rightarrow> CNNState" where
  "startAnalysis s =
     (if \<not> hasModel s \<or> \<not> hasPreprocessor s \<or> \<not> hasUploadedImage s then s
      else s\<lparr>isAnalyzing := True,
             analysisProgress := 0,
             intervals := intervals s @ [nextHandle s],
             nextHandle := Suc (nextHandle s),
             pendingRun := Some \<lparr>capturedIsOnline = isOnline s,
                                 capturedDiseaseType = diseaseTypeProp s,
                                 progressInterval = nextHandle s,
                                 awaiting = AwaitPredict\<rparr>\<rparr>)"

text \<open>
  \<open>model.predict\<close> resolved with \<open>r\<close>: lines 159-173, up to \<open>await saveDetectionResult\<close>.
\<close>

definition predictResolved :: "PredictionResult \<Rightarrow> SaveEnv \<Rightarrow> CNNState \<Rightarrow> CNNState" where
  "predictResolved r env s =
     (case pendingRun s of
        None \<Rightarrow> s
      | Some run \<Rightarrow>
          (if awaiting run = AwaitPredict then
             s\<lparr>intervals := removeAll (progressInterval run) (intervals s),
               analysisProgress := 100,
               predictionResult := Some r,
               onResultCalls := onResultCalls s @ [r],
               saveCalls := saveCalls s @ [detectionRecord run r env],
               pendingRun := Some (run\<lparr>awaiting := AwaitSave\<rparr>)\<rparr>
           else s))"

text \<open>
  \<open>model.predict\<close> rejected: \<open>catch\<close> logs, \<open>finally\<close> clears \<open>isAnalyzing\<close>. The timer
  is declared inside \<open>try\<close> and is not cleared on this path.
\<close>

definition predictRejected :: "CNNState \<Rightarrow> CNNState" where
  "predictRejected s =
     (case pendingRun s of
        None \<Rightarrow> s
      | Some run \<Rightarrow>
          (if awaiting run = AwaitPredict
           then s\<lparr>isAnalyzing := False, pendingRun := None\<rparr>
           else s))"

text \<open>\<open>saveDetectionResult\<close> settled (resolved or rejected): \<open>finally\<close>.\<close>

definition saveSettled :: "CNNState \<Rightarrow> CNNState" where
  "saveSettled s =
     (case pendingRun s of
        None \<Rightarrow> s
      | Some run \<Rightarrow>
          (if awaiting run = AwaitSave
           then s\<lparr>isAnalyzing := False, pendingRun := None\<rparr>
           else s))"

text \<open>\<open>resetAnalysis\<close> (lines 184-191) and \<open>img.onload\<close> of \<open>handleImageUpload\<close>.\<close>

definition resetAnalysis :: "CNNState \<Rightarrow> CNNState" where
  "resetAnalysis s =
     s\<lparr>hasUploadedImage := False, predictionResult := None, analysisProgress := 0\<rparr>"

definition imageLoaded :: "CNNState \<Rightarrow> CNNState" where
  "imageLoaded s = s\<lparr>hasUploadedImage := True, predictionResult := None\<rparr>"

subsection \<open>Events\<close>

text \<open>
  \<open>EffectRun d nav\<close> is the effect of lines 57-76 for the prop \<open>diseaseType = d\<close>, reading
  \<open>navigator.onLine = nav\<close>; \<open>CnnConstructed\<close> and \<open>CnnReady\<close> are the state updates of
  \<open>initializeCNN\<close>. The two buttons are rendered only while an image is loaded
  (line 271); the start button is disabled by \<open>isAnalyzing || !isModelReady\<close> (line 312)
  and the reset button by \<open>isAnalyzing\<close> (line 329).
\<close>

datatype CNNEvent =
    EffectRun DiseaseType bool
  | CnnConstructed
  | CnnReady
  | OnlineEvent
  | OfflineEvent
  | ImageLoaded
  | ClickStart
  | ClickReset
  | IntervalTick nat
  | PredictResolved PredictionResult SaveEnv
  | PredictRejected
  | SaveSettled

fun cnnStep :: "CNNEvent \<Rightarrow> CNNState \<Rightarrow> CNNState" where
  "cnnStep (EffectRun d nav) s = checkOnlineStatus nav (s\<lparr>diseaseTypeProp := d\<rparr>)"
| "cnnStep CnnConstructed s = s\<lparr>hasModel := True, hasPreprocessor := True\<rparr>"
| "cnnStep CnnReady s = s\<lparr>isModelReady := True\<rparr>"
| "cnnStep OnlineEvent s = handleOnline s"
| "cnnStep OfflineEvent s = handleOffline s"
| "cnnStep ImageLoaded s = imageLoaded s"
| "cnnStep ClickStart s =
     (if hasUploadedImage s \<and> \<not> isAnalyzing s \<and> isModelReady s then startAnalysis s else s)"
| "cnnStep ClickReset s =
     (if hasUploadedImage s \<and> \<not> isAnalyzing s then resetAnalysis s else s)"
| "cnnStep (IntervalTick h) s = intervalTick h s"
| "cnnStep (PredictResolved r env) s = predictResolved r env s"
| "cnnStep PredictRejected s = predictRejected s"
| "cnnStep SaveSettled s = saveSettled s"

definition cnnRun :: "CNNEvent list \<Rightarrow> CNNState \<Rightarrow> CNNState" where
  "cnnRun evs s = fold cnnStep evs s"

section \<open>DetectionFlow (src/unnamed/part_000, lines 1-489)\<close>

text \<open>
  The state cells of \<open>DetectionFlow\<close>, with the timers and the outstanding calls of
  \<open>analyzeImage\<close> (each known by the handle of its own progress timer). The cell
  \<open>isUsingCamera\<close> is left out: it is only set when \<open>videoRef.current\<close> exists, and the
  video element is only rendered when \<open>isUsingCamera\<close> already holds, so it stays
  \<open>false\<close> and \<open>captureImage\<close> is never reached.
\<close>

datatype DetectionStep = Instructions | Capture | Analyzing | Results

datatype Verdict = Positive | Negative | Inconclusive

record DetectionResult =
  result_flow :: Verdict
  confidence_flow :: real
  details :: string
  recommendations :: "string list"

record FlowState =
  currentStep :: DetectionStep
  capturedImage :: "string option"
  isAnalyzing_flow :: bool
  analysisProgress_flow :: nat
  detectionResult :: "DetectionResult option"
  error :: "string option"
  intervals_flow :: "nat list"
  nextHandle_flow :: nat
  outstanding :: "nat list"

definition initialFlow :: FlowState where
  "initialFlow =
     \<lparr>currentStep = Instructions, capturedImage = None, isAnalyzing_flow = False,
      analysisProgress_flow = 0, detectionResult = None, error = None,
      intervals_flow = [], nextHandle_flow = 0, outstanding = []\<rparr>"

text \<open>The updater of the progress timer with handle \<open>h\<close> (lines 143-151).\<close>

definition flowTick :: "nat \<Rightarrow> FlowState \<Rightarrow> FlowState" where
  "flowTick h s =
     (if h \<in> set (intervals_flow s) then
        (if analysisProgress_flow s \<ge> 90
         then s\<lparr>intervals_flow := removeAll h (intervals_flow s), analysisProgress_flow := 90\<rparr>
         else s\<lparr>analysisProgress_flow := analysisProgress_flow s + 10\<rparr>)
      else s)"

text \<open>\<open>analyzeImage\<close> up to \<open>await fetch(...)\<close> (lines 138-155).\<close>

definition analyzeImage :: "FlowState \<Rightarrow> FlowState" where
  "analyzeImage s =
     s\<lparr>isAnalyzing_flow := True,
       error := None,
       analysisProgress_flow := 0,
       intervals_flow := intervals_flow s @ [nextHandle_flow s],
       nextHandle_flow := Suc (nextHandle_flow s),
       outstanding := outstanding s @ [nextHandle_flow s]\<rparr>"

text \<open>
  How the request ends: \<open>fetch\<close> rejects, the response is not \<open>ok\<close>, \<open>response.json()\<close>
  rejects, or the body is parsed. No state is written between the two \<open>await\<close>s, so one
  event stands for both.
\<close>

datatype FetchOutcome =
    FetchRejected
  | ResponseNotOk
  | JsonRejected
  | JsonParsed DetectionResult

text \<open>The rest of \<open>analyzeImage\<close> (lines 166-180) for the call with timer \<open>h\<close>.\<close>

definition analyzeImageSettled :: "nat \<Rightarrow> FetchOutcome \<Rightarrow> FlowState \<Rightarrow> FlowState" where
  "analyzeImageSettled h outcome s =
     (if h \<notin> set (outstanding s) then s
      else
        (let s1 =
           (case outcome of
              JsonParsed r \<Rightarrow>
                s\<lparr>detectionResult := Some r, analysisProgress_flow := 100, currentStep := Results\<rparr>
            | _ \<Rightarrow>
                s\<lparr>error := Some ''Analysis failed. Please try again.'', currentStep := Capture\<rparr>)
         in s1\<lparr>isAnalyzing_flow := False,
                intervals_flow := removeAll h (intervals_flow s1),
                outstanding := removeAll h (outstanding s1)\<rparr>))"

text \<open>\<open>reader.onload\<close> of \<open>handleFileUpload\<close> (lines 90-94) and \<open>resetDetection\<close>.\<close>

definition handleFileUpload :: "string \<Rightarrow> FlowState \<Rightarrow> FlowState" where
  "handleFileUpload img s = analyzeImage (s\<lparr>capturedImage := Some img, currentStep := Analyzing\<rparr>)"

definition resetDetection :: "FlowState \<Rightarrow> FlowState" where
  "resetDetection s =
     s\<lparr>currentStep := Instructions, capturedImage := None, detectionResult := None,
       error := None, analysisProgress_flow := 0\<rparr>"

text \<open>
  \<open>startCamera\<close> (lines 99-111) once \<open>getUserMedia\<close> has settled: with no video element
  mounted a granted stream changes nothing, and a denial sets the error.
\<close>

definition startCameraSettled :: "bool \<Rightarrow> FlowState \<Rightarrow> FlowState" where
  "startCameraSettled granted s =
     (if granted then s
      else s\<lparr>error := Some ''Camera access denied. Please use file upload instead.''\<rparr>)"

text \<open>
  \<open>ClickNewAnalysis\<close> is the button of the results step (line 434), \<open>ClickBack\<close> the one of
  the capture step (line 317).
\<close>

datatype FlowEvent =
    FileLoaded string
  | FlowTick nat
  | AnalysisSettled nat FetchOutcome
  | CameraSettled bool
  | ClickNewAnalysis
  | ClickBack

fun flowStep :: "FlowEvent \<Rightarrow> FlowState \<Rightarrow> FlowState" where
  "flowStep (FileLoaded img) s = handleFileUpload img s"
| "flowStep (FlowTick h) s = flowTick h s"
| "flowStep (AnalysisSettled h outcome) s = analyzeImageSettled h outcome s"
| "flowStep (CameraSettled granted) s = startCameraSettled granted s"
| "flowStep ClickNewAnalysis s = (if currentStep s = Results then resetDetection s else s)"
| "flowStep ClickBack s = (if currentStep s = Capture then s\<lparr>currentStep := Instructions\<rparr> else s)"

definition flowRun :: "FlowEvent list \<Rightarrow> FlowState \<Rightarrow> FlowState" where
  "flowRun evs s = fold flowStep evs s"

text \<open>Events that neither start nor end a call of \<open>analyzeImage\<close>.\<close>

fun flowOutstanding :: "FlowEvent \<Rightarrow> bool" where
  "flowOutstanding (FileLoaded img) = False"
| "flowOutstanding (AnalysisSettled h outcome) = False"
| "flowOutstanding e = True"

text \<open>Events of the other component that do not settle \<open>model.predict\<close>.\<close>

fun cnnOutstanding :: "CNNEvent \<Rightarrow> bool" where
  "cnnOutstanding (PredictResolved r env) = False"
| "cnnOutstanding PredictRejected = False"
| "cnnOutstanding SaveSettled = False"
| "cnnOutstanding e = True"

text \<open>Events that write \<open>isOnline\<close>.\<close>

fun writesIsOnline :: "CNNEvent \<Rightarrow> bool" where
  "writesIsOnline (EffectRun d nav) = True"
| "writesIsOnline OnlineEvent = True"
| "writesIsOnline OfflineEvent = True"
| "writesIsOnline e = False"

section \<open>The offline subsystem of the specification\<close>

text \<open>
  The components call \<open>useOfflineStorage\<close> and \<open>useOfflineSync\<close> of
  \<open>@/lib/offline-storage\<close>. That module is not among the sources, so the store and the
  sync coordinator below follow the specification (sections 4.1 and 4.4).
\<close>

subsection \<open>LocalStore\<close>

text \<open>Modelled from the spec: the three entity types of section 3 (module missing).\<close>

datatype EntityType = ModelEntity | DetectionResultEntity | TrainingSessionEntity

text \<open>
  Modelled from the spec: the stored entity of section 3 (the module that declares it is
  missing). The payload is kept as its size in bytes, which is all the quota looks at.
\<close>

record Entity =
  entityType :: EntityType
  entityId :: string
  payloadBytes :: nat
  entitySynced :: bool

text \<open>Modelled from the spec: the failure of a write of section 7 (module missing).\<close>

datatype StoreError = QuotaExceeded

text \<open>
  Modelled from the spec: the state of LocalStore (section 4.1, module missing), a keyed
  table with one entry per type and id, on a medium with a byte budget.
\<close>

record LocalStore =
  entries :: "((EntityType \<times> string) \<times> Entity) list"
  quotaBytes :: nat

text \<open>
  Modelled from the spec: the table without one key, and the bytes a table takes of the
  budget (section 4.1, module missing).
\<close>

definition withoutKey ::
  "EntityType \<times> string \<Rightarrow> ((EntityType \<times> string) \<times> Entity) list
     \<Rightarrow> ((EntityType \<times> string) \<times> Entity) list" where
  "withoutKey k es = filter (\<lambda>p. fst p \<noteq> k) es"

definition usedBytes :: "((EntityType \<times> string) \<times> Entity) list \<Rightarrow> nat" where
  "usedBytes es = sum_list (map (\<lambda>p. payloadBytes (snd p)) es)"

text \<open>
  Modelled from the spec: \<open>getById(type, id)\<close> of LocalStore (section 4.1, module
  missing): the entity or not-found, never an error for absence.
\<close>

definition getById :: "LocalStore \<Rightarrow> EntityType \<Rightarrow> string \<Rightarrow> Entity option" where
  "getById ls ty i = map_of (entries ls) (ty, i)"

text \<open>
  Modelled from the spec: \<open>put(entity)\<close> of LocalStore (section 4.1, module missing): one
  atomic write of one key, which fails with \<open>QuotaExceeded\<close> when the medium rejects it
  (the payload is too large for the remaining budget) and then leaves the store as it
  was. The result is returned to the caller; \<open>put\<close> makes one attempt.
\<close>

definition put :: "LocalStore \<Rightarrow> Entity \<Rightarrow> (StoreError + unit) \<times> LocalStore" where
  "put ls e =
     (let k = (entityType e, entityId e);
          others = withoutKey k (entries ls)
      in if usedBytes others + payloadBytes e > quotaBytes ls
         then (Inl QuotaExceeded, ls)
         else (Inr (), ls\<lparr>entries := others @ [(k, e)]\<rparr>))"

text \<open>
  Modelled from the spec: \<open>delete(type, id)\<close> of LocalStore (section 4.1, module
  missing): removes the key; an absent key is not an error.
\<close>

definition delete :: "LocalStore \<Rightarrow> EntityType \<Rightarrow> string \<Rightarrow> (StoreError + unit) \<times> LocalStore" where
  "delete ls ty i = (Inr (), ls\<lparr>entries := withoutKey (ty, i) (entries ls)\<rparr>)"

subsection \<open>SyncCoordinator\<close>

text \<open>Modelled from the spec: the two states of SyncCoordinator (section 4.4, module missing).\<close>

datatype SyncPhase = Idle | Syncing

text \<open>
  Modelled from the spec: the state machine of SyncCoordinator (section 4.4, module
  missing), \<open>Idle \<rightarrow> Syncing \<rightarrow> Idle\<close>, with counters of the passes started and finished;
  the passes in flight are those started and not finished.
\<close>

record SyncCoordinator =
  phase :: SyncPhase
  passesStarted :: nat
  passesFinished :: nat

definition idleCoordinator :: SyncCoordinator where
  "idleCoordinator = \<lparr>phase = Idle, passesStarted = 0, passesFinished = 0\<rparr>"

definition passesInFlight :: "SyncCoordinator \<Rightarrow> nat" where
  "passesInFlight c = passesStarted c - passesFinished c"

text \<open>
  Modelled from the spec: what a caller of a sync request is told (section 4.4, module
  missing).
\<close>

datatype StartReply = PassStarted | AlreadyRunning

text \<open>
  Modelled from the spec: trigger handling of SyncCoordinator (section 4.4, module
  missing). A request while \<open>Syncing\<close> is a no-op that tells the caller a pass is already
  running; \<open>forceSync()\<close> and an Online transition are both such requests.
\<close>

definition requestSync :: "SyncCoordinator \<Rightarrow> StartReply \<times> SyncCoordinator" where
  "requestSync c =
     (if phase c = Syncing then (AlreadyRunning, c)
      else (PassStarted, c\<lparr>phase := Syncing, passesStarted := Suc (passesStarted c)\<rparr>))"

text \<open>Modelled from the spec: a pass reaching \<open>Idle\<close> again (section 4.4, module missing).\<close>

definition passCompleted :: "SyncCoordinator \<Rightarrow> SyncCoordinator" where
  "passCompleted c =
     (if phase c = Syncing
      then c\<lparr>phase := Idle, passesFinished := Suc (passesFinished c)\<rparr>
      else c)"

text \<open>
  Modelled from the spec: the triggers of SyncCoordinator and the end of a pass
  (section 4.4, module missing), applied in order.
\<close>

datatype SyncEvent = ForceSync | OnlineTransition | PassReachedIdle

fun syncStep :: "SyncEvent \<Rightarrow> SyncCoordinator \<Rightarrow> SyncCoordinator" where
  "syncStep ForceSync c = snd (requestSync c)"
| "syncStep OnlineTransition c = snd (requestSync c)"
| "syncStep PassReachedIdle c = passCompleted c"

definition syncRun :: "SyncEvent list \<Rightarrow> SyncCoordinator \<Rightarrow> SyncCoordinator" where
  "syncRun evs c = fold syncStep evs c"

subsection \<open>Retry of a push\<close>

text \<open>
  Modelled from the spec: the retry policy of step 4 of the per-pass algorithm
  (section 4.4, module missing): exponential backoff from a base up to a cap (the spec's
  example is 1 s and 60 s), in milliseconds.
\<close>

record RetryConfig =
  baseDelay :: nat
  capDelay :: nat

definition backoff :: "RetryConfig \<Rightarrow> nat \<Rightarrow> nat" where
  "backoff cfg n = min (capDelay cfg) (baseDelay cfg * 2 ^ n)"

text \<open>
  Modelled from the spec: how one push ends (section 4.4, steps 4 and 5, module missing).
\<close>

datatype PushOutcome = Acknowledged | TimedOut | TransientFailure | Rejected

text \<open>
  Modelled from the spec: what the coordinator keeps for a pending item (section 4.4,
  steps 4 and 5, module missing).
\<close>

record SyncItem =
  itemSynced :: bool
  attempts :: nat
  failedPermanent :: bool
  retryIn :: "nat option"

definition pendingItem :: SyncItem where
  "pendingItem = \<lparr>itemSynced = False, attempts = 0, failedPermanent = False, retryIn = None\<rparr>"

text \<open>
  Modelled from the spec: the outcome of one push (section 4.4, steps 4 and 5, module
  missing). The random jitter of the attempt is the argument \<open>jitter\<close>; it is added to
  the backoff of the attempt.
\<close>

definition afterPush :: "RetryConfig \<Rightarrow> PushOutcome \<times> nat \<Rightarrow> SyncItem \<Rightarrow> SyncItem" where
  "afterPush cfg oj it =
     (case fst oj of
        Acknowledged \<Rightarrow> it\<lparr>itemSynced := True, retryIn := None\<rparr>
      | Rejected \<Rightarrow> it\<lparr>failedPermanent := True, retryIn := None\<rparr>
      | _ \<Rightarrow> it\<lparr>attempts := Suc (attempts it),
                retryIn := Some (backoff cfg (attempts it) + snd oj)\<rparr>)"

fun isTransient :: "PushOutcome \<Rightarrow> bool" where
  "isTransient TimedOut = True"
| "isTransient TransientFailure = True"
| "isTransient outcome = False"

text \<open>
  Modelled from the spec: the item after each of a series of pushes, in order
  (section 4.4, step 4, module missing).
\<close>

fun pushHistory :: "RetryConfig \<Rightarrow> (PushOutcome \<times> nat) list \<Rightarrow> SyncItem \<Rightarrow> SyncItem list" where
  "pushHistory cfg [] it = []"
| "pushHistory cfg (oj # ojs) it = afterPush cfg oj it # pushHistory cfg ojs (afterPush cfg oj it)"

subsection \<open>ConnectivityMonitor\<close>

text \<open>
  Modelled from the spec: what ConnectivityMonitor (section 4.3) looks at before it
  declares Online, the platform flag and the outcome of a probe of the health endpoint.
  The components have no such monitor; \<open>spec_declaresOnline\<close> follows the words of the
  specification, to be compared with \<open>isOnline\<close> of the component.
\<close>

record Connectivity =
  platformFlag :: bool
  probeSucceeds :: bool

definition spec_declaresOnline :: "Connectivity \<Rightarrow> bool" where
  "spec_declaresOnline c = (platformFlag c \<and> probeSucceeds c)"

text \<open>
  Events with the time in milliseconds at which they arrive. \<open>publications\<close> lists the
  changes of \<open>isOnline\<close> of the component with their times.
\<close>

fun publications :: "CNNState \<Rightarrow> (nat \<times> CNNEvent) list \<Rightarrow> (nat \<times> bool) list" where
  "publications s [] = []"
| "publications s (te # tes) =
     (if isOnline (cnnStep (snd te) s) \<noteq> isOnline s
      then (fst te, isOnline (cnnStep (snd te) s)) # publications (cnnStep (snd te) s) tes
      else publications (cnnStep (snd te) s) tes)"

text \<open>
  Modelled from the spec: the hysteresis of ConnectivityMonitor (section 4.3), in the
  specification's words: a transition published at time \<open>fst p\<close> has held stable past
  a window of \<open>w\<close> milliseconds, that is, no platform event arrived during the window
  that ends at the publication.
\<close>

definition spec_heldStable :: "nat \<Rightarrow> (nat \<times> CNNEvent) list \<Rightarrow> nat \<times> bool \<Rightarrow> bool" where
  "spec_heldStable w tes p =
     (w \<le> fst p \<and>
      list_all (\<lambda>te. \<not> (writesIsOnline (snd te) \<and> fst p - w < fst te \<and> fst te \<le> fst p)) tes)"

section \<open>Invariants and example inputs\<close>

text \<open>The value an event writes to \<open>isOnline\<close>, when it writes one.\<close>

fun onlineAfter :: "CNNEvent \<Rightarrow> bool" where
  "onlineAfter (EffectRun d nav) = nav"
| "onlineAfter OnlineEvent = True"
| "onlineAfter e = False"

text \<open>
  While \<open>model.predict\<close> of the run is outstanding; while the call of \<open>analyzeImage\<close> with
  timer \<open>h\<close> is outstanding; the balance of the passes of the coordinator.
\<close>

definition runOutstanding :: "Run \<Rightarrow> CNNState \<Rightarrow> bool" where
  "runOutstanding run s =
     (pendingRun s = Some run \<and> awaiting run = AwaitPredict \<and> isAnalyzing s
      \<and> analysisProgress s \<le> 90 \<and> 10 dvd analysisProgress s)"

text \<open>
  While \<open>saveDetectionResult\<close> of the run is outstanding and no timer is active.
\<close>

definition saveOutstanding :: "CNNState \<Rightarrow> bool" where
  "saveOutstanding s =
     (case pendingRun s of
        None \<Rightarrow> False
      | Some run \<Rightarrow> awaiting run = AwaitSave \<and> isAnalyzing s \<and> intervals s = []
          \<and> analysisProgress s = 100)"

definition callOutstanding :: "nat \<Rightarrow> FlowState \<Rightarrow> bool" where
  "callOutstanding h s =
     (h \<in> set (outstanding s) \<and> currentStep s = Analyzing
      \<and> analysisProgress_flow s \<le> 90 \<and> 10 dvd analysisProgress_flow s)"

definition syncInv :: "SyncCoordinator \<Rightarrow> bool" where
  "syncInv c = (passesStarted c = passesFinished c + (if phase c = Syncing then 1 else 0))"

definition failureMessage :: string where
  "failureMessage = ''Analysis failed. Please try again.''"

definition examplePrediction :: PredictionResult where
  "examplePrediction =
     \<lparr>className = ''Normal'', confidence = 93 / 100, predictions = [93 / 100, 7 / 100],
      processingTime = 120\<rparr>"

definition exampleEnv :: "nat \<Rightarrow> SaveEnv" where
  "exampleEnv t =
     \<lparr>nowId = t, randomBase36 = ''0.4fzyo82mvyr'', nowImage = t,
      isoNow = ''2024-01-01T00:00:00.000Z''\<rparr>"

text \<open>
  The component mounted with \<open>navigator.onLine = nav\<close>, its model ready and an image
  loaded; two analyses, the first started offline and the second online.
\<close>

definition readyEvents :: "bool \<Rightarrow> CNNEvent list" where
  "readyEvents nav = [EffectRun Glaucoma nav, CnnConstructed, CnnReady, ImageLoaded]"


text \<open>
  A prediction that is rejected, the analysis started again at once, two ticks (one of
  the timer the rejected run left behind, one of the new timer) and the result.
\<close>

definition leftoverTimer :: "CNNEvent list" where
  "leftoverTimer = readyEvents True @
     [ClickStart, PredictRejected,
      ClickStart, IntervalTick 0, IntervalTick 1,
      PredictResolved examplePrediction (exampleEnv 1700000000000)]"

definition exampleResult :: DetectionResult where
  "exampleResult =
     \<lparr>result_flow = Negative, confidence_flow = 9 / 10, details = ''No signs detected'',
      recommendations = []\<rparr>"

definition demoEntity :: "string \<Rightarrow> nat \<Rightarrow> Entity" where
  "demoEntity i n =
     \<lparr>entityType = DetectionResultEntity, entityId = i, payloadBytes = n, entitySynced = False\<rparr>"

definition demoStore :: LocalStore where
  "demoStore =
     \<lparr>entries = [((DetectionResultEntity, ''d1''), demoEntity ''d1'' 60)], quotaBytes = 100\<rparr>"

definition exampleConfig :: RetryConfig where
  "exampleConfig = \<lparr>baseDelay = 1000, capDelay = 60000\<rparr>"

section \<open>Lemmas about the components\<close>

lemmas cnn_defs = handleOnline_def handleOffline_def checkOnlineStatus_def intervalTick_def
  startAnalysis_def predictResolved_def predictRejected_def saveSettled_def resetAnalysis_def
  imageLoaded_def

lemmas flow_defs = flowTick_def analyzeImage_def analyzeImageSettled_def handleFileUpload_def
  resetDetection_def startCameraSettled_def

lemma cnnRun_Nil: "cnnRun [] s = s"
  by (simp add: cnnRun_def)

lemma cnnRun_Cons: "cnnRun (e # evs) s = cnnRun evs (cnnStep e s)"
  by (simp add: cnnRun_def)

lemma cnnRun_snoc: "cnnRun (evs @ [e]) s = cnnStep e (cnnRun evs s)"
  by (simp add: cnnRun_def)

lemma flowRun_Nil: "flowRun [] s = s"
  by (simp add: flowRun_def)

lemma flowRun_Cons: "flowRun (e # evs) s = flowRun evs (flowStep e s)"
  by (simp add: flowRun_def)

lemma isOnline_step: "isOnline (cnnStep e s) = (if writesIsOnline e then onlineAfter e else isOnline s)"
  by (cases e) (auto simp: cnn_defs split: option.splits)

lemma isOnline_run:
  "isOnline (cnnRun evs s) =
     (if filter writesIsOnline evs = [] then isOnline s
      else onlineAfter (last (filter writesIsOnline evs)))"
  by (induction evs rule: rev_induct) (simp_all add: cnnRun_Nil cnnRun_snoc isOnline_step)

lemma quiet_run_isOnline:
  "\<forall>e\<in>set evs. \<not> writesIsOnline e \<Longrightarrow> isOnline (cnnRun evs s) = isOnline s"
  by (simp add: isOnline_run filter_empty_conv)

lemma tick_bound: "10 dvd (p::nat) \<Longrightarrow> p < 90 \<longrightarrow> p + 10 \<le> 90"
  by presburger

lemma startAnalysis_outstanding:
  "hasModel s \<Longrightarrow> hasPreprocessor s \<Longrightarrow> hasUploadedImage s \<Longrightarrow>
   runOutstanding \<lparr>capturedIsOnline = isOnline s, capturedDiseaseType = diseaseTypeProp s,
      progressInterval = nextHandle s, awaiting = AwaitPredict\<rparr> (startAnalysis s)
   \<and> analysisProgress (startAnalysis s) = 0
   \<and> saveCalls (startAnalysis s) = saveCalls s
   \<and> isOnline (startAnalysis s) = isOnline s"
  by (simp add: runOutstanding_def startAnalysis_def)

text \<open>
  While the prediction is outstanding the buttons are disabled, so the only writes are
  those of the timers and of the connectivity handlers.
\<close>

lemma outstanding_step:
  "runOutstanding run s \<Longrightarrow> cnnOutstanding e \<Longrightarrow>
   runOutstanding run (cnnStep e s)
   \<and> saveCalls (cnnStep e s) = saveCalls s
   \<and> analysisProgress s \<le> analysisProgress (cnnStep e s)
   \<and> (analysisProgress (cnnStep e s) = analysisProgress s
       \<or> analysisProgress (cnnStep e s) = analysisProgress s + 10)"
proof (cases e)
  case (IntervalTick h)
  assume a: "runOutstanding run s"
  then have "10 dvd analysisProgress s" by (simp add: runOutstanding_def)
  then have "analysisProgress s < 90 \<longrightarrow> analysisProgress s + 10 \<le> 90"
    by (rule tick_bound)
  with a IntervalTick show ?thesis
    by (simp add: runOutstanding_def intervalTick_def)
qed (simp_all add: runOutstanding_def cnn_defs)

lemma outstanding_run:
  "runOutstanding run s \<Longrightarrow> \<forall>e\<in>set evs. cnnOutstanding e \<Longrightarrow>
   runOutstanding run (cnnRun evs s) \<and> saveCalls (cnnRun evs s) = saveCalls s"
  by (induction evs arbitrary: s) (simp_all add: cnnRun_Nil cnnRun_Cons outstanding_step)

lemma predictResolved_outstanding:
  "runOutstanding run s \<Longrightarrow>
   saveCalls (cnnStep (PredictResolved r env) s) = saveCalls s @ [detectionRecord run r env]
   \<and> analysisProgress (cnnStep (PredictResolved r env) s) = 100"
  by (simp add: runOutstanding_def predictResolved_def)

lemma outstanding_step_intervals:
  "runOutstanding run s \<Longrightarrow> cnnOutstanding e \<Longrightarrow>
   set (intervals (cnnStep e s)) \<subseteq> set (intervals s)"
  by (cases e) (auto simp: runOutstanding_def cnn_defs)

lemma outstanding_run_intervals:
  "runOutstanding run s \<Longrightarrow> \<forall>e\<in>set evs. cnnOutstanding e \<Longrightarrow>
   set (intervals (cnnRun evs s)) \<subseteq> set (intervals s)"
proof (induction evs arbitrary: s)
  case Nil
  show ?case by (simp add: cnnRun_Nil)
next
  case (Cons e evs)
  from Cons.prems have e: "cnnOutstanding e" and evs: "\<forall>e\<in>set evs. cnnOutstanding e"
    by simp_all
  from outstanding_step [OF Cons.prems(1) e] have "runOutstanding run (cnnStep e s)" by simp
  from Cons.IH [OF this evs] outstanding_step_intervals [OF Cons.prems(1) e]
  show ?case by (auto simp: cnnRun_Cons)
qed

lemma predictResolved_saveOutstanding:
  "runOutstanding run s \<Longrightarrow> set (intervals s) \<subseteq> {progressInterval run} \<Longrightarrow>
   saveOutstanding (cnnStep (PredictResolved r env) s)"
proof -
  assume a: "runOutstanding run s" and b: "set (intervals s) \<subseteq> {progressInterval run}"
  from b have "set (removeAll (progressInterval run) (intervals s)) = {}" by auto
  then have "removeAll (progressInterval run) (intervals s) = []" by (simp only: set_empty)
  with a show ?thesis
    by (simp add: runOutstanding_def saveOutstanding_def predictResolved_def)
qed

lemma saveOutstanding_step:
  "saveOutstanding s \<Longrightarrow> cnnOutstanding e \<Longrightarrow> saveOutstanding (cnnStep e s)"
  by (cases e) (auto simp: saveOutstanding_def cnn_defs split: option.splits)

lemma saveOutstanding_run:
  "saveOutstanding s \<Longrightarrow> \<forall>e\<in>set evs. cnnOutstanding e \<Longrightarrow> saveOutstanding (cnnRun evs s)"
  by (induction evs arbitrary: s) (simp_all add: cnnRun_Nil cnnRun_Cons saveOutstanding_step)

text \<open>
  With no timer active at the start, the timer of the run is the only one, the result
  clears it, and the progress stays 100 while the save is outstanding.
\<close>

lemma progress_stays_100:
  assumes "hasModel s" and "hasPreprocessor s" and "hasUploadedImage s" and "intervals s = []"
    and "\<forall>e\<in>set evs. cnnOutstanding e" and "\<forall>e\<in>set evs2. cnnOutstanding e"
  shows "analysisProgress
      (cnnRun evs2 (cnnStep (PredictResolved r env) (cnnRun evs (startAnalysis s)))) = 100"
proof -
  let ?run = "\<lparr>capturedIsOnline = isOnline s, capturedDiseaseType = diseaseTypeProp s,
      progressInterval = nextHandle s, awaiting = AwaitPredict\<rparr>"
  from assms(1-3) have st: "runOutstanding ?run (startAnalysis s)"
    by (simp add: startAnalysis_outstanding)
  from assms(1-4) have "set (intervals (startAnalysis s)) \<subseteq> {nextHandle s}"
    by (simp add: startAnalysis_def)
  with outstanding_run_intervals [OF st assms(5)]
  have sub: "set (intervals (cnnRun evs (startAnalysis s))) \<subseteq> {progressInterval ?run}"
    by auto
  from outstanding_run [OF st assms(5)] have "runOutstanding ?run (cnnRun evs (startAnalysis s))"
    by simp
  from predictResolved_saveOutstanding [OF this sub]
  have "saveOutstanding (cnnStep (PredictResolved r env) (cnnRun evs (startAnalysis s)))" .
  from saveOutstanding_run [OF this assms(6)] show ?thesis
    by (simp add: saveOutstanding_def split: option.splits)
qed

lemma predictRejected_progress:
  "analysisProgress (cnnStep PredictRejected s) = analysisProgress s"
  by (simp add: predictRejected_def split: option.splits)

lemma synced_detectionRecord: "synced (detectionRecord run r env) = capturedIsOnline run"
  by (simp add: detectionRecord_def)

lemma result_detectionRecord: "result (detectionRecord run r env) = r"
  by (simp add: detectionRecord_def)

lemma readyEvents_state:
  "cnnRun (readyEvents nav) (initialState Glaucoma) =
     (initialState Glaucoma)\<lparr>hasModel := True, hasPreprocessor := True, isModelReady := True,
        hasUploadedImage := True, isOnline := nav\<rparr>"
  by (simp add: readyEvents_def cnnRun_def initialState_def cnn_defs)







lemma handleFileUpload_outstanding:
  "callOutstanding (nextHandle_flow s) (handleFileUpload img s)
   \<and> analysisProgress_flow (handleFileUpload img s) = 0
   \<and> detectionResult (handleFileUpload img s) = detectionResult s"
  by (simp add: callOutstanding_def flow_defs)

lemma flow_outstanding_step:
  assumes "callOutstanding h s" and "flowOutstanding e"
  shows "callOutstanding h (flowStep e s)
   \<and> detectionResult (flowStep e s) = detectionResult s
   \<and> analysisProgress_flow s \<le> analysisProgress_flow (flowStep e s)
   \<and> (analysisProgress_flow (flowStep e s) = analysisProgress_flow s
       \<or> analysisProgress_flow (flowStep e s) = analysisProgress_flow s + 10)"
proof (cases e)
  case (FlowTick k)
  from assms(1) have "10 dvd analysisProgress_flow s" by (simp add: callOutstanding_def)
  then have "analysisProgress_flow s < 90 \<longrightarrow> analysisProgress_flow s + 10 \<le> 90"
    by (rule tick_bound)
  with assms(1) FlowTick show ?thesis
    by (simp add: callOutstanding_def flowTick_def)
qed (use assms in \<open>simp_all add: callOutstanding_def flow_defs\<close>)

lemma flow_outstanding_run:
  "callOutstanding h s \<Longrightarrow> \<forall>e\<in>set evs. flowOutstanding e \<Longrightarrow>
   callOutstanding h (flowRun evs s) \<and> detectionResult (flowRun evs s) = detectionResult s"
  by (induction evs arbitrary: s) (simp_all add: flowRun_Nil flowRun_Cons flow_outstanding_step)

lemma settled_failure:
  assumes "h \<in> set (outstanding s)" and "outcome \<in> {FetchRejected, ResponseNotOk, JsonRejected}"
  shows "error (analyzeImageSettled h outcome s) = Some failureMessage
    \<and> currentStep (analyzeImageSettled h outcome s) = Capture
    \<and> detectionResult (analyzeImageSettled h outcome s) = detectionResult s
    \<and> analysisProgress_flow (analyzeImageSettled h outcome s) = analysisProgress_flow s
    \<and> \<not> isAnalyzing_flow (analyzeImageSettled h outcome s)"
  using assms by (auto simp: analyzeImageSettled_def failureMessage_def)

lemma settled_parsed:
  "h \<in> set (outstanding s) \<Longrightarrow>
   analysisProgress_flow (analyzeImageSettled h (JsonParsed r) s) = 100
   \<and> currentStep (analyzeImageSettled h (JsonParsed r) s) = Results
   \<and> detectionResult (analyzeImageSettled h (JsonParsed r) s) = Some r"
  by (simp add: analyzeImageSettled_def)

lemma results_only_after_parse:
  assumes "currentStep (flowStep e s) = Results" and "currentStep s \<noteq> Results"
  shows "\<exists>h r. e = AnalysisSettled h (JsonParsed r) \<and> h \<in> set (outstanding s)"
proof (cases e)
  case (AnalysisSettled h outcome)
  with assms show ?thesis
    by (cases outcome) (auto simp: analyzeImageSettled_def split: if_splits)
qed (use assms in \<open>auto simp: flow_defs split: if_splits\<close>)

section \<open>Lemmas about the store and the coordinator\<close>

lemma withoutKey_idem: "withoutKey k (withoutKey k es) = withoutKey k es"
  by (simp add: withoutKey_def)

lemma withoutKey_absent: "map_of es k = None \<Longrightarrow> withoutKey k es = es"
  by (induction es) (auto simp: withoutKey_def split: if_splits)

lemma map_of_withoutKey_same: "map_of (withoutKey k es) k = None"
  by (induction es) (auto simp: withoutKey_def)

lemma syncInv_step: "syncInv c \<Longrightarrow> syncInv (syncStep e c)"
  by (cases e) (auto simp: syncInv_def requestSync_def passCompleted_def)

lemma syncInv_run: "syncInv c \<Longrightarrow> syncInv (syncRun evs c)"
  unfolding syncRun_def
  by (induction evs arbitrary: c) (simp_all add: syncInv_step)

lemma syncInv_idle: "syncInv idleCoordinator"
  by (simp add: syncInv_def idleCoordinator_def)

lemma backoff_mono: "backoff cfg n \<le> backoff cfg (Suc n)"
  by (simp add: backoff_def min.coboundedI2)

lemma backoff_cap: "backoff cfg n \<le> capDelay cfg"
  by (simp add: backoff_def)

lemma backoff_doubles:
  "baseDelay cfg * 2 ^ Suc n \<le> capDelay cfg \<Longrightarrow> backoff cfg (Suc n) = 2 * backoff cfg n"
  by (simp add: backoff_def min_def)

lemma afterPush_transient:
  "isTransient (fst oj) \<Longrightarrow>
   afterPush cfg oj it =
     it\<lparr>attempts := Suc (attempts it), retryIn := Some (backoff cfg (attempts it) + snd oj)\<rparr>"
  by (cases "fst oj") (simp_all add: afterPush_def)

lemma pushHistory_nth:
  "list_all (\<lambda>oj. isTransient (fst oj)) ojs \<Longrightarrow> k < length ojs \<Longrightarrow>
   pushHistory cfg ojs it ! k =
     it\<lparr>attempts := attempts it + Suc k,
        retryIn := Some (backoff cfg (attempts it + k) + snd (ojs ! k))\<rparr>"
proof (induction ojs arbitrary: it k)
  case Nil
  then show ?case by simp
next
  case (Cons oj ojs)
  show ?case
  proof (cases k)
    case 0
    with Cons.prems show ?thesis by (simp add: afterPush_transient)
  next
    case (Suc j)
    with Cons.prems have "pushHistory cfg ojs (afterPush cfg oj it) ! j =
      (afterPush cfg oj it)\<lparr>attempts := attempts (afterPush cfg oj it) + Suc j,
         retryIn := Some (backoff cfg (attempts (afterPush cfg oj it) + j) + snd (ojs ! j))\<rparr>"
      by (intro Cons.IH) simp_all
    with Cons.prems Suc show ?thesis by (simp add: afterPush_transient)
  qed
qed

section \<open>The claims\<close>

subsection \<open>C1: the synced flag of a saved detection result\<close>

text \<open>
  C1, as amended. When \<open>startAnalysis\<close> passes its guard and nothing writes \<open>isOnline\<close>
  while \<open>model.predict\<close> is outstanding, the one record it hands to
  \<open>saveDetectionResult\<close> has \<open>synced\<close> equal to \<open>isOnline\<close> at the moment of the save:
  \<open>false\<close> when the component is Offline, \<open>true\<close> when it is Online. (\<open>saveModel\<close> is
  never called in the sources.)
\<close>

theorem save_synced_is_isOnline:
  assumes "hasModel s" and "hasPreprocessor s" and "hasUploadedImage s"
    and "\<forall>e\<in>set evs. cnnOutstanding e \<and> \<not> writesIsOnline e"
  shows "saveCalls (cnnStep (PredictResolved r env) (cnnRun evs (startAnalysis s)))
           = saveCalls s @ [last (saveCalls (cnnStep (PredictResolved r env) (cnnRun evs (startAnalysis s))))]
         \<and> synced (last (saveCalls (cnnStep (PredictResolved r env) (cnnRun evs (startAnalysis s)))))
           = isOnline (cnnRun evs (startAnalysis s))
         \<and> result (last (saveCalls (cnnStep (PredictResolved r env) (cnnRun evs (startAnalysis s))))) = r"
proof -
  let ?run = "\<lparr>capturedIsOnline = isOnline s, capturedDiseaseType = diseaseTypeProp s,
      progressInterval = nextHandle s, awaiting = AwaitPredict\<rparr>"
  let ?t = "cnnRun evs (startAnalysis s)"
  from assms have st: "runOutstanding ?run (startAnalysis s)"
    "saveCalls (startAnalysis s) = saveCalls s" "isOnline (startAnalysis s) = isOnline s"
    by (simp_all add: startAnalysis_outstanding)
  from assms(4) have out: "\<forall>e\<in>set evs. cnnOutstanding e"
    and quiet: "\<forall>e\<in>set evs. \<not> writesIsOnline e"
    by simp_all
  from outstanding_run [OF st(1) out] st(2)
  have t: "runOutstanding ?run ?t" "saveCalls ?t = saveCalls s" by simp_all
  have on: "isOnline ?t = isOnline s"
    using quiet_run_isOnline [OF quiet] st(3) by simp
  have "saveCalls (cnnStep (PredictResolved r env) ?t) = saveCalls s @ [detectionRecord ?run r env]"
    using predictResolved_outstanding [OF t(1)] t(2) by simp
  then show ?thesis
    by (simp add: synced_detectionRecord result_detectionRecord on)
qed

theorem save_synced_is_isOnline_witness:
  "map synced (saveCalls (cnnStep (PredictResolved examplePrediction (exampleEnv 1700000000000))
      (cnnRun [IntervalTick 0, IntervalTick 0]
         (startAnalysis (cnnRun (readyEvents False) (initialState Glaucoma)))))) = [False]
   \<and> \<not> isOnline (cnnRun [IntervalTick 0, IntervalTick 0]
         (startAnalysis (cnnRun (readyEvents False) (initialState Glaucoma))))"
  using save_synced_is_isOnline [of "cnnRun (readyEvents False) (initialState Glaucoma)"
      "[IntervalTick 0, IntervalTick 0]" examplePrediction "exampleEnv 1700000000000"]
  unfolding readyEvents_state
  by (simp add: initialState_def cnnRun_def cnn_defs synced_detectionRecord)

text \<open>
  C1 as stated (every save has \<open>synced = false\<close>, Online or Offline) fails: the
  component is mounted Online, the analysis is started and the prediction resolves;
  the record handed to \<open>saveDetectionResult\<close> has \<open>synced = true\<close> (line 170,
  \<open>synced: isOnline\<close>).
\<close>

theorem save_while_online_marked_synced:
  "map synced (saveCalls (cnnRun (readyEvents True @ [ClickStart, IntervalTick 0,
      PredictResolved examplePrediction (exampleEnv 1700000000000)]) (initialState Glaucoma))) = [True]
   \<and> isOnline (cnnRun (readyEvents True @ [ClickStart, IntervalTick 0,
      PredictResolved examplePrediction (exampleEnv 1700000000000)]) (initialState Glaucoma))"
  by (simp add: readyEvents_def initialState_def cnnRun_def cnn_defs synced_detectionRecord)

subsection \<open>C2: who writes the synced flag\<close>




subsection \<open>C3: entities saved while Offline\<close>

text \<open>
  C3 (an entity saved while the system is Offline has \<open>synced = false\<close> until a sync pass
  with its id succeeds) fails on the code. The analysis is started while Online, the
  browser fires \<open>offline\<close> while \<open>model.predict\<close> is outstanding, and the prediction then
  resolves: \<open>isOnline\<close> is \<open>false\<close> before and after the save, yet the record is handed to
  \<open>saveDetectionResult\<close> with \<open>synced = true\<close>, because \<open>startAnalysis\<close> still holds the
  \<open>isOnline\<close> of the render in which it was started.
\<close>

theorem stale_isOnline_at_save:
  "\<not> isOnline (cnnRun (readyEvents True @ [ClickStart, OfflineEvent]) (initialState Glaucoma))
   \<and> map synced (saveCalls (cnnRun (readyEvents True @ [ClickStart, OfflineEvent,
        PredictResolved examplePrediction (exampleEnv 1700000000000)]) (initialState Glaucoma))) = [True]
   \<and> \<not> isOnline (cnnRun (readyEvents True @ [ClickStart, OfflineEvent,
        PredictResolved examplePrediction (exampleEnv 1700000000000)]) (initialState Glaucoma))"
  by (simp add: readyEvents_def initialState_def cnnRun_def cnn_defs synced_detectionRecord)

subsection \<open>C4: how the Online state is derived\<close>

text \<open>
  C4, as amended. \<open>isOnline\<close> is \<open>true\<close> in the first render, is set to
  \<open>navigator.onLine\<close> by the effect, to \<open>true\<close> by every \<open>online\<close> event and to \<open>false\<close>
  by every \<open>offline\<close> event, each at once: after any events it is the value written by
  the last of these, whatever came before. No probe is made and no transition is held
  back.
\<close>

theorem isOnline_follows_platform_events:
  "isOnline (initialState d) = True
   \<and> isOnline (cnnStep e s) = (if writesIsOnline e then onlineAfter e else isOnline s)
   \<and> isOnline (cnnRun evs s) =
       (if filter writesIsOnline evs = [] then isOnline s
        else onlineAfter (last (filter writesIsOnline evs)))"
  by (simp add: isOnline_step isOnline_run initialState_def)

theorem isOnline_follows_platform_events_witness:
  "isOnline (cnnRun [EffectRun Glaucoma False, OnlineEvent, IntervalTick 0, OfflineEvent, OnlineEvent]
     (initialState Glaucoma)) = True
   \<and> isOnline (cnnRun [EffectRun Glaucoma True, OfflineEvent, CnnReady] (initialState Glaucoma)) = False"
  using isOnline_follows_platform_events [of Glaucoma OnlineEvent "initialState Glaucoma"
      "[EffectRun Glaucoma False, OnlineEvent, IntervalTick 0, OfflineEvent, OnlineEvent]"]
    isOnline_follows_platform_events [of Glaucoma OnlineEvent "initialState Glaucoma"
      "[EffectRun Glaucoma True, OfflineEvent, CnnReady]"]
  by simp

text \<open>
  C4 as stated fails twice. With the platform flag set and a health endpoint that
  cannot be reached, the specification's monitor does not declare Online, and the
  component is Online. And an \<open>online\<close> event at 1000 ms followed by an \<open>offline\<close> event
  at 1001 ms is published at 1000 ms, when it has not been stable for even 1 ms.
\<close>

theorem online_without_probe_or_hysteresis:
  "isOnline (checkOnlineStatus (platformFlag \<lparr>platformFlag = True, probeSucceeds = False\<rparr>)
      (initialState Glaucoma))
   \<and> \<not> spec_declaresOnline \<lparr>platformFlag = True, probeSucceeds = False\<rparr>
   \<and> publications (handleOffline (initialState Glaucoma)) [(1000, OnlineEvent), (1001, OfflineEvent)]
       = [(1000, True), (1001, False)]
   \<and> \<not> spec_heldStable 1 [(1000, OnlineEvent), (1001, OfflineEvent)] (1000, True)"
  by (simp add: checkOnlineStatus_def initialState_def spec_declaresOnline_def handleOffline_def
      handleOnline_def spec_heldStable_def)

subsection \<open>C5: one sync pass at a time\<close>

text \<open>
  C5. In every state the coordinator reaches from \<open>Idle\<close> by sync requests
  (\<open>forceSync()\<close> calls, Online transitions) and ends of passes, at most one pass is in
  flight, and one is in flight exactly when the state is \<open>Syncing\<close>. A request that
  arrives while \<open>Syncing\<close> answers that a pass is already running and leaves the
  coordinator as it was, so nothing is queued; after any request there is still at most
  one pass in flight.
\<close>

theorem at_most_one_pass_in_flight:
  "passesInFlight (syncRun evs idleCoordinator) \<le> 1
   \<and> (phase (syncRun evs idleCoordinator) = Syncing)
       = (passesInFlight (syncRun evs idleCoordinator) = 1)
   \<and> (phase (syncRun evs idleCoordinator) = Syncing \<longrightarrow>
        requestSync (syncRun evs idleCoordinator) = (AlreadyRunning, syncRun evs idleCoordinator))
   \<and> passesInFlight (snd (requestSync (syncRun evs idleCoordinator))) \<le> 1"
proof -
  let ?c = "syncRun evs idleCoordinator"
  have inv: "syncInv ?c"
    by (rule syncInv_run [OF syncInv_idle])
  have inv': "syncInv (snd (requestSync ?c))"
    using syncInv_step [OF inv, of ForceSync] by simp
  from inv have a: "passesInFlight ?c \<le> 1" "(phase ?c = Syncing) = (passesInFlight ?c = 1)"
    by (auto simp: syncInv_def passesInFlight_def)
  from inv' have b: "passesInFlight (snd (requestSync ?c)) \<le> 1"
    by (auto simp: syncInv_def passesInFlight_def)
  have c: "phase ?c = Syncing \<longrightarrow> requestSync ?c = (AlreadyRunning, ?c)"
    by (simp add: requestSync_def)
  from a b c show ?thesis by blast
qed

theorem at_most_one_pass_in_flight_witness:
  "phase (syncRun [ForceSync, ForceSync, OnlineTransition] idleCoordinator) = Syncing
   \<and> passesInFlight (syncRun [ForceSync, ForceSync, OnlineTransition] idleCoordinator) = 1
   \<and> passesStarted (syncRun [ForceSync, ForceSync, OnlineTransition] idleCoordinator) = 1
   \<and> requestSync (syncRun [ForceSync, ForceSync, OnlineTransition] idleCoordinator)
       = (AlreadyRunning, syncRun [ForceSync, ForceSync, OnlineTransition] idleCoordinator)"
  using at_most_one_pass_in_flight [of "[ForceSync, ForceSync, OnlineTransition]"]
  by (simp add: syncRun_def idleCoordinator_def requestSync_def passesInFlight_def)

subsection \<open>C6: a put that exceeds the quota\<close>

text \<open>
  C6. A \<open>put\<close> that fails with \<open>QuotaExceeded\<close> returns that failure to its caller and
  leaves the store as it was, so \<open>getById\<close> gives for every key what it gave before: the
  prior value, or not-found when the key was absent. A \<open>put\<close> that succeeds stores the
  whole entity. So \<open>getById\<close> for the key of a \<open>put\<close> is always the prior value or the
  whole new entity, never a part of one. The failure is the case of a payload larger
  than the remaining budget.
\<close>

theorem put_quota_exceeded_atomic:
  "(fst (put ls e) = Inl QuotaExceeded \<longrightarrow>
      snd (put ls e) = ls \<and> getById (snd (put ls e)) ty i = getById ls ty i)
   \<and> (fst (put ls e) = Inr () \<longrightarrow>
      getById (snd (put ls e)) (entityType e) (entityId e) = Some e)
   \<and> (getById (snd (put ls e)) (entityType e) (entityId e) = getById ls (entityType e) (entityId e)
      \<or> getById (snd (put ls e)) (entityType e) (entityId e) = Some e)
   \<and> (fst (put ls e) = Inl QuotaExceeded)
      = (usedBytes (withoutKey (entityType e, entityId e) (entries ls)) + payloadBytes e
          > quotaBytes ls)"
  by (auto simp: put_def Let_def getById_def map_of_withoutKey_same map_add_def
      split: option.splits)

theorem put_quota_exceeded_atomic_witness:
  "fst (put demoStore (demoEntity ''d1'' 101)) = Inl QuotaExceeded
   \<and> getById (snd (put demoStore (demoEntity ''d1'' 101))) DetectionResultEntity ''d1''
       = Some (demoEntity ''d1'' 60)
   \<and> fst (put demoStore (demoEntity ''d2'' 41)) = Inl QuotaExceeded
   \<and> getById (snd (put demoStore (demoEntity ''d2'' 41))) DetectionResultEntity ''d2'' = None
   \<and> fst (put demoStore (demoEntity ''d2'' 40)) = Inr ()
   \<and> getById (snd (put demoStore (demoEntity ''d2'' 40))) DetectionResultEntity ''d2''
       = Some (demoEntity ''d2'' 40)"
  using put_quota_exceeded_atomic [of demoStore "demoEntity ''d1'' 101" DetectionResultEntity "''d1''"]
    put_quota_exceeded_atomic [of demoStore "demoEntity ''d2'' 41" DetectionResultEntity "''d2''"]
    put_quota_exceeded_atomic [of demoStore "demoEntity ''d2'' 40" DetectionResultEntity "''d2''"]
  by (simp add: demoStore_def demoEntity_def getById_def put_def withoutKey_def usedBytes_def Let_def)

subsection \<open>Retry backoff (C7)\<close>

text \<open>
  The specification adds a random jitter to the backoff of a retry and gives no bound
  for it. With the jitter of each attempt as an input: a push that times out or fails
  transiently leaves the item unsynced and schedules it after the backoff of the attempt
  plus its jitter, and the backoff term never decreases from one attempt to the next
  and never exceeds the cap.
\<close>

lemma backoff_term_nondecreasing:
  assumes "list_all (\<lambda>oj. isTransient (fst oj)) ojs" and "k < length ojs" and "\<not> itemSynced it"
  shows "\<not> itemSynced (pushHistory cfg ojs it ! k)
    \<and> retryIn (pushHistory cfg ojs it ! k) = Some (backoff cfg (attempts it + k) + snd (ojs ! k))
    \<and> attempts (pushHistory cfg ojs it ! k) = attempts it + Suc k
    \<and> backoff cfg n \<le> backoff cfg (Suc n)
    \<and> backoff cfg n \<le> capDelay cfg"
  using assms by (simp add: pushHistory_nth backoff_mono backoff_cap)

text \<open>
  The delay an item is scheduled with is another matter: for a jitter that may take any
  value it can decrease from one attempt to the next (6000 ms, then 2000 ms) and can
  exceed the cap (71000 ms with a cap of 60000 ms). Whether the delays never decrease
  depends on the range of the jitter, which the specification leaves open.
\<close>

lemma delay_with_jitter_depends_on_jitter:
  "map retryIn (pushHistory exampleConfig [(TimedOut, 5000), (TimedOut, 0)] pendingItem)
     = [Some 6000, Some 2000]
   \<and> map retryIn (pushHistory exampleConfig [(TimedOut, 70000)] pendingItem) = [Some 71000]
   \<and> map retryIn (pushHistory exampleConfig [(TimedOut, 250), (TransientFailure, 40)] pendingItem)
     = [Some 1250, Some 2040]"
  by (simp add: exampleConfig_def pendingItem_def afterPush_def backoff_def)

subsection \<open>C8: delete is idempotent\<close>

text \<open>
  C8. \<open>delete(type, id)\<close> never fails; deleting the same key a second time gives the
  store that the first delete gave; after a delete the key is not found; and deleting a
  key that is absent leaves the store as it was.
\<close>

theorem delete_idempotent:
  "fst (delete ls ty i) = Inr ()
   \<and> delete (snd (delete ls ty i)) ty i = delete ls ty i
   \<and> getById (snd (delete ls ty i)) ty i = None
   \<and> (getById ls ty i = None \<longrightarrow> delete ls ty i = (Inr (), ls))"
  by (simp add: delete_def getById_def withoutKey_idem withoutKey_absent map_of_withoutKey_same)

theorem delete_idempotent_witness:
  "getById demoStore DetectionResultEntity ''d2'' = None
   \<and> delete demoStore DetectionResultEntity ''d2'' = (Inr (), demoStore)
   \<and> getById demoStore DetectionResultEntity ''d1'' = Some (demoEntity ''d1'' 60)
   \<and> delete (snd (delete demoStore DetectionResultEntity ''d1'')) DetectionResultEntity ''d1''
       = (Inr (), \<lparr>entries = [], quotaBytes = 100\<rparr>)"
  using delete_idempotent [of demoStore DetectionResultEntity "''d2''"]
    delete_idempotent [of demoStore DetectionResultEntity "''d1''"]
  by (simp add: demoStore_def demoEntity_def getById_def delete_def withoutKey_def)

subsection \<open>C9: a failed analysis request in DetectionFlow\<close>

text \<open>
  C9. When the request of an outstanding call of \<open>analyzeImage\<close> fails (\<open>fetch\<close> rejects,
  the response is not \<open>ok\<close>, or its body cannot be parsed), the error message becomes
  \<open>Analysis failed. Please try again.\<close>, \<open>currentStep\<close> becomes \<open>capture\<close> and
  \<open>detectionResult\<close> stays what it was; in an analysis started from the initial state
  it is \<open>null\<close> before and after the failure, whatever timer ticks and button clicks come
  in between. The step \<open>results\<close> is entered only by the event that delivers a parsed
  response to an outstanding call.
\<close>

theorem analyzeImage_failure_returns_to_capture:
  assumes "outcome \<in> {FetchRejected, ResponseNotOk, JsonRejected}"
    and "\<forall>e\<in>set evs. flowOutstanding e"
  shows "(h \<in> set (outstanding s) \<longrightarrow>
            error (analyzeImageSettled h outcome s) = Some ''Analysis failed. Please try again.''
          \<and> currentStep (analyzeImageSettled h outcome s) = Capture
          \<and> detectionResult (analyzeImageSettled h outcome s) = detectionResult s)
       \<and> detectionResult (flowRun (FileLoaded img # evs @ [AnalysisSettled 0 outcome]) initialFlow) = None
       \<and> currentStep (flowRun (FileLoaded img # evs @ [AnalysisSettled 0 outcome]) initialFlow) = Capture
       \<and> (currentStep (flowStep e s) = Results \<and> currentStep s \<noteq> Results \<longrightarrow>
            (\<exists>k r. e = AnalysisSettled k (JsonParsed r) \<and> k \<in> set (outstanding s)))"
proof -
  let ?t = "flowRun evs (handleFileUpload img initialFlow)"
  have "callOutstanding (nextHandle_flow initialFlow) (handleFileUpload img initialFlow)"
    "detectionResult (handleFileUpload img initialFlow) = detectionResult initialFlow"
    by (simp_all add: handleFileUpload_outstanding)
  with flow_outstanding_run [OF this(1) assms(2)]
  have t: "0 \<in> set (outstanding ?t)" "detectionResult ?t = None"
    by (simp_all add: callOutstanding_def initialFlow_def)
  have run: "flowRun (FileLoaded img # evs @ [AnalysisSettled 0 outcome]) initialFlow
      = analyzeImageSettled 0 outcome ?t"
    by (simp add: flowRun_def)
  from settled_failure [OF t(1) assms(1)] t(2) run
  have a: "detectionResult (flowRun (FileLoaded img # evs @ [AnalysisSettled 0 outcome]) initialFlow) = None"
    "currentStep (flowRun (FileLoaded img # evs @ [AnalysisSettled 0 outcome]) initialFlow) = Capture"
    by simp_all
  have b: "h \<in> set (outstanding s) \<longrightarrow>
            error (analyzeImageSettled h outcome s) = Some ''Analysis failed. Please try again.''
          \<and> currentStep (analyzeImageSettled h outcome s) = Capture
          \<and> detectionResult (analyzeImageSettled h outcome s) = detectionResult s"
    using settled_failure [OF _ assms(1), of h s] by (simp add: failureMessage_def)
  have c: "currentStep (flowStep e s) = Results \<and> currentStep s \<noteq> Results \<longrightarrow>
            (\<exists>k r. e = AnalysisSettled k (JsonParsed r) \<and> k \<in> set (outstanding s))"
    using results_only_after_parse [of e s] by blast
  from a b c show ?thesis by blast
qed

theorem analyzeImage_failure_returns_to_capture_witness:
  "error (flowRun [FileLoaded ''data:image/png;base64,AAAA'', FlowTick 0, FlowTick 0,
       AnalysisSettled 0 ResponseNotOk] initialFlow) = Some ''Analysis failed. Please try again.''
   \<and> currentStep (flowRun [FileLoaded ''data:image/png;base64,AAAA'', FlowTick 0, FlowTick 0,
       AnalysisSettled 0 ResponseNotOk] initialFlow) = Capture
   \<and> detectionResult (flowRun [FileLoaded ''data:image/png;base64,AAAA'', FlowTick 0, FlowTick 0,
       AnalysisSettled 0 ResponseNotOk] initialFlow) = None
   \<and> currentStep (flowRun [FileLoaded ''data:image/png;base64,AAAA'', FlowTick 0, FlowTick 0,
       AnalysisSettled 0 (JsonParsed exampleResult)] initialFlow) = Results"
  using analyzeImage_failure_returns_to_capture [of ResponseNotOk "[FlowTick 0, FlowTick 0]" 0
      "flowRun [FileLoaded ''data:image/png;base64,AAAA'', FlowTick 0, FlowTick 0] initialFlow"
      "''data:image/png;base64,AAAA''" "AnalysisSettled 0 (JsonParsed exampleResult)"]
  by (simp add: flowRun_def initialFlow_def flow_defs)

subsection \<open>C10: the displayed progress of an analysis\<close>

text \<open>
  C10 (during a single analysis run the displayed progress never decreases) fails on
  \<open>startAnalysis\<close>. The timer of a run whose prediction is rejected is never cleared: it
  is declared inside \<open>try\<close> and cleared only after the \<open>await\<close>, where \<open>analyzeImage\<close>
  clears its own timer in \<open>finally\<close>. The component is mounted, its model ready and an
  image loaded; the analysis is started and its prediction is rejected; the analysis is
  started again at once, the old and the new timer tick once each, and the prediction
  resolves: the progress is 100. While the save of this run is awaited, and
  \<open>isAnalyzing\<close> still holds, the timer left by the first run fires and its updater writes
  90 over the 100.
\<close>

theorem leftover_timer_lowers_progress:
  "analysisProgress (cnnRun leftoverTimer (initialState Glaucoma)) = 100
   \<and> analysisProgress (cnnRun (leftoverTimer @ [IntervalTick 0]) (initialState Glaucoma)) = 90
   \<and> isAnalyzing (cnnRun (leftoverTimer @ [IntervalTick 0]) (initialState Glaucoma))"
  by (simp add: leftoverTimer_def readyEvents_def initialState_def cnnRun_def cnn_defs)

text \<open>
  What holds of the progress. In \<open>startAnalysis\<close> (once its guard is passed) and in
  \<open>analyzeImage\<close> (called by \<open>handleFileUpload\<close>) the progress starts at 0. While the
  request is outstanding, whatever events arrive, every event leaves the progress as it
  is or raises it by 10, and the progress stays at most 90. It becomes 100 by the event
  that delivers the result, and a failed request leaves it as it is. In
  \<open>startAnalysis\<close> the progress then stays 100 until the run ends when no timer of an
  earlier analysis is active at the start of the run.
\<close>

lemma progress_during_analysis:
  assumes "hasModel s" and "hasPreprocessor s" and "hasUploadedImage s"
    and "\<forall>e\<in>set evs. cnnOutstanding e" and "cnnOutstanding e"
    and "\<forall>e\<in>set fevs. flowOutstanding e" and "flowOutstanding fe"
    and "outcome \<in> {FetchRejected, ResponseNotOk, JsonRejected}"
    and "\<forall>e\<in>set evs2. cnnOutstanding e"
  shows "analysisProgress (startAnalysis s) = 0
    \<and> analysisProgress (cnnRun evs (startAnalysis s))
        \<le> analysisProgress (cnnStep e (cnnRun evs (startAnalysis s)))
    \<and> (analysisProgress (cnnStep e (cnnRun evs (startAnalysis s)))
          = analysisProgress (cnnRun evs (startAnalysis s))
        \<or> analysisProgress (cnnStep e (cnnRun evs (startAnalysis s)))
          = analysisProgress (cnnRun evs (startAnalysis s)) + 10)
    \<and> analysisProgress (cnnStep e (cnnRun evs (startAnalysis s))) \<le> 90
    \<and> analysisProgress (cnnStep (PredictResolved r env) (cnnRun evs (startAnalysis s))) = 100
    \<and> analysisProgress (cnnStep PredictRejected (cnnRun evs (startAnalysis s)))
        = analysisProgress (cnnRun evs (startAnalysis s))
    \<and> (intervals s = [] \<longrightarrow>
         analysisProgress
           (cnnRun evs2 (cnnStep (PredictResolved r env) (cnnRun evs (startAnalysis s)))) = 100)
    \<and> analysisProgress_flow (handleFileUpload img fs) = 0
    \<and> analysisProgress_flow (flowRun fevs (handleFileUpload img fs))
        \<le> analysisProgress_flow (flowStep fe (flowRun fevs (handleFileUpload img fs)))
    \<and> (analysisProgress_flow (flowStep fe (flowRun fevs (handleFileUpload img fs)))
          = analysisProgress_flow (flowRun fevs (handleFileUpload img fs))
        \<or> analysisProgress_flow (flowStep fe (flowRun fevs (handleFileUpload img fs)))
          = analysisProgress_flow (flowRun fevs (handleFileUpload img fs)) + 10)
    \<and> analysisProgress_flow (flowStep fe (flowRun fevs (handleFileUpload img fs))) \<le> 90
    \<and> analysisProgress_flow (flowStep (AnalysisSettled (nextHandle_flow fs) (JsonParsed dr))
          (flowRun fevs (handleFileUpload img fs))) = 100
    \<and> analysisProgress_flow (flowStep (AnalysisSettled (nextHandle_flow fs) outcome)
          (flowRun fevs (handleFileUpload img fs)))
        = analysisProgress_flow (flowRun fevs (handleFileUpload img fs))"
proof -
  let ?run = "\<lparr>capturedIsOnline = isOnline s, capturedDiseaseType = diseaseTypeProp s,
      progressInterval = nextHandle s, awaiting = AwaitPredict\<rparr>"
  let ?t = "cnnRun evs (startAnalysis s)"
  let ?u = "flowRun fevs (handleFileUpload img fs)"
  from assms(1-3) have st: "runOutstanding ?run (startAnalysis s)"
    and c0: "analysisProgress (startAnalysis s) = 0"
    by (simp_all add: startAnalysis_outstanding)
  from outstanding_run [OF st assms(4)] have t: "runOutstanding ?run ?t" by simp
  from outstanding_step [OF t assms(5)]
  have c1: "analysisProgress ?t \<le> analysisProgress (cnnStep e ?t)"
    and c2: "analysisProgress (cnnStep e ?t) = analysisProgress ?t
       \<or> analysisProgress (cnnStep e ?t) = analysisProgress ?t + 10"
    and c3: "analysisProgress (cnnStep e ?t) \<le> 90"
    by (simp_all add: runOutstanding_def)
  from predictResolved_outstanding [OF t]
  have c4: "analysisProgress (cnnStep (PredictResolved r env) ?t) = 100" by simp
  have c5: "analysisProgress (cnnStep PredictRejected ?t) = analysisProgress ?t"
    by (rule predictRejected_progress)
  have c6: "intervals s = [] \<longrightarrow>
      analysisProgress (cnnRun evs2 (cnnStep (PredictResolved r env) ?t)) = 100"
    using progress_stays_100 [OF assms(1-3) _ assms(4) assms(9)] by blast
  have fst: "callOutstanding (nextHandle_flow fs) (handleFileUpload img fs)"
    and f0: "analysisProgress_flow (handleFileUpload img fs) = 0"
    by (simp_all add: handleFileUpload_outstanding)
  from flow_outstanding_run [OF fst assms(6)]
  have u: "callOutstanding (nextHandle_flow fs) ?u" by simp
  from flow_outstanding_step [OF u assms(7)]
  have f1: "analysisProgress_flow ?u \<le> analysisProgress_flow (flowStep fe ?u)"
    and f2: "analysisProgress_flow (flowStep fe ?u) = analysisProgress_flow ?u
       \<or> analysisProgress_flow (flowStep fe ?u) = analysisProgress_flow ?u + 10"
    and f3: "analysisProgress_flow (flowStep fe ?u) \<le> 90"
    by (simp_all add: callOutstanding_def)
  from u have mem: "nextHandle_flow fs \<in> set (outstanding ?u)"
    by (simp add: callOutstanding_def)
  from settled_parsed [OF mem]
  have f4: "analysisProgress_flow
      (flowStep (AnalysisSettled (nextHandle_flow fs) (JsonParsed dr)) ?u) = 100"
    by simp
  from settled_failure [OF mem assms(8)]
  have f5: "analysisProgress_flow (flowStep (AnalysisSettled (nextHandle_flow fs) outcome) ?u)
      = analysisProgress_flow ?u"
    by simp
  from c0 c1 c2 c3 c4 c5 c6 f0 f1 f2 f3 f4 f5 show ?thesis by blast
qed

lemma progress_during_analysis_example:
  "analysisProgress (cnnRun [IntervalTick 0, IntervalTick 0]
        (startAnalysis (cnnRun (readyEvents True) (initialState Glaucoma)))) = 20
   \<and> analysisProgress (cnnStep (IntervalTick 0) (cnnRun [IntervalTick 0, IntervalTick 0]
        (startAnalysis (cnnRun (readyEvents True) (initialState Glaucoma))))) = 30
   \<and> analysisProgress (cnnStep (PredictResolved examplePrediction (exampleEnv 1700000000000))
        (cnnRun [IntervalTick 0, IntervalTick 0]
          (startAnalysis (cnnRun (readyEvents True) (initialState Glaucoma))))) = 100
   \<and> analysisProgress (cnnRun [IntervalTick 0, OfflineEvent]
        (cnnStep (PredictResolved examplePrediction (exampleEnv 1700000000000))
          (cnnRun [IntervalTick 0, IntervalTick 0]
            (startAnalysis (cnnRun (readyEvents True) (initialState Glaucoma)))))) = 100
   \<and> analysisProgress_flow (flowRun [FlowTick 0, FlowTick 0]
        (handleFileUpload ''data:image/png;base64,AAAA'' initialFlow)) = 20
   \<and> analysisProgress_flow (flowStep (AnalysisSettled 0 (JsonParsed exampleResult))
        (flowRun [FlowTick 0, FlowTick 0]
          (handleFileUpload ''data:image/png;base64,AAAA'' initialFlow))) = 100
   \<and> analysisProgress_flow (flowStep (AnalysisSettled 0 FetchRejected)
        (flowRun [FlowTick 0, FlowTick 0]
          (handleFileUpload ''data:image/png;base64,AAAA'' initialFlow))) = 20"
proof -
  let ?s = "cnnRun (readyEvents True) (initialState Glaucoma)"
  have ready: "hasModel ?s" "hasPreprocessor ?s" "hasUploadedImage ?s"
    by (simp_all add: readyEvents_state)
  have quiet: "\<forall>e\<in>set [IntervalTick 0, IntervalTick 0]. cnnOutstanding e"
    "cnnOutstanding (IntervalTick 0)"
    "\<forall>e\<in>set [FlowTick 0, FlowTick 0]. flowOutstanding e" "flowOutstanding (FlowTick 0)"
    "FetchRejected \<in> {FetchRejected, ResponseNotOk, JsonRejected}"
    "\<forall>e\<in>set [IntervalTick 0, OfflineEvent]. cnnOutstanding e"
    by simp_all
  have none: "intervals ?s = []"
    unfolding readyEvents_state by (simp add: initialState_def)
  have cnn: "analysisProgress (cnnRun [IntervalTick 0, IntervalTick 0] (startAnalysis ?s)) = 20"
    "analysisProgress (cnnStep (IntervalTick 0) (cnnRun [IntervalTick 0, IntervalTick 0]
        (startAnalysis ?s))) = 30"
    unfolding readyEvents_state
    by (simp_all add: initialState_def cnnRun_def startAnalysis_def intervalTick_def)
  have flow: "analysisProgress_flow (flowRun [FlowTick 0, FlowTick 0]
        (handleFileUpload ''data:image/png;base64,AAAA'' initialFlow)) = 20"
    "nextHandle_flow initialFlow = 0"
    by (simp_all add: flowRun_def initialFlow_def handleFileUpload_def analyzeImage_def flowTick_def)
  from progress_during_analysis [OF ready quiet, of examplePrediction "exampleEnv 1700000000000"
      "''data:image/png;base64,AAAA''" initialFlow exampleResult] cnn flow none
  show ?thesis by simp
qed

end
